theory Spec2Isabelle
  imports Complex_Main
begin

section \<open>The log tables of \<open>bin/clickhouse-logs.sql\<close>\<close>

text \<open>
  The program is a schema: the table \<open>logs22\<close> with its materialized columns, its
  constraint, its skip indexes, its two projections and its merge engine; the counter
  table \<open>log_attributes\<close> fed by the materialized view \<open>log_to_log_attributes\<close>;
  and the Kafka table \<open>kafka_logs_avro\<close> whose messages the materialized view
  \<open>kafka_logs_avro_mv\<close> writes to \<open>logs22\<close>. Each clause is given the value it
  computes: a column expression becomes a function of the row, a table becomes the list
  of its rows in insertion order, a merge becomes a function on that list. The function
  \<open>extractIPv4Substrings\<close> and the Distributed table \<open>logs\<close> over \<open>logs22\<close> play
  no part in what follows and are left out, as are replication and sharding.
\<close>

subsection \<open>Column types\<close>

text \<open>
  \<open>DateTime64(6)\<close> counts microseconds from the epoch, before it and after it, in 64
  signed bits; the timestamps of the model are integers, and no statement below needs
  one that 64 bits do not hold. \<open>DateTime\<close>, which is what \<open>DateTime(0)\<close> declares,
  counts seconds from the epoch in 32 unsigned bits, from 1970 to 2106: a \<open>datetime\<close>
  of the model is an integer from 0 to \<open>2 ^ 32 - 1\<close>. \<open>Float64\<close> values are never
  computed with and stay abstract. \<open>Map(String, String)\<close> is an array of pairs, in which
  a key may occur more than once. \<open>length\<close> of a \<open>String\<close> counts bytes, as the length
  of a \<open>string\<close> does here.
\<close>

typedecl float64

type_synonym datetime64 = int

type_synonym datetime = int

type_synonym str_map = "(string \<times> string) list"

subsection \<open>Rows\<close>

text \<open>
  The eighteen columns of \<open>kafka_logs_avro\<close>, which are also the columns a writer
  of \<open>logs22\<close> supplies besides \<open>team_id\<close>. The Kafka table declares the values of
  its four attribute maps \<open>Nullable\<close>; how the engine converts a NULL to the target
  columns, which are not \<open>Nullable\<close>, is left outside the model: a payload holds the
  values that are present.
\<close>

record log_payload =
  uuid :: string
  trace_id :: string
  span_id :: string
  trace_flags :: int
  timestamp :: datetime64
  observed_timestamp :: datetime64
  body :: string
  severity_text :: string
  severity_number :: int
  service_name :: string
  resource_attributes :: str_map
  resource_id :: string
  instrumentation_scope :: string
  event_name :: string
  attributes :: str_map
  attributes_map_str :: str_map
  attributes_map_float :: "(string \<times> float64) list"
  attributes_map_datetime :: "(string \<times> datetime64) list"

text \<open>
  What an INSERT into \<open>logs22\<close> carries: every column that is neither MATERIALIZED nor
  ALIAS. There is no \<open>time_bucket\<close> and no \<open>created_at\<close> here.
\<close>

record log_insert = log_payload +
  team_id :: int

text \<open>
  A stored row of \<open>logs22\<close>. The two MATERIALIZED search columns
  (\<open>mat_body_ipv4_matches\<close>, \<open>mat_body_ngram\<close>) are functions of \<open>body\<close> alone and
  are left out; the ALIAS columns \<open>time_minute\<close> and \<open>level\<close> are not stored.
\<close>

record log_row = log_insert +
  time_bucket :: datetime
  created_at :: datetime64

text \<open>A Kafka message: the decoded payload and the virtual column \<open>_headers\<close>, a
  nested array of (name, value).\<close>

record kafka_message =
  payload :: log_payload
  headers :: "(string \<times> string) list"

subsection \<open>Column expressions\<close>

text \<open>
  \<open>toStartOfInterval(t, INTERVAL n MINUTE)\<close> of a \<open>DateTime64(6)\<close>. With an interval
  of minutes the function returns a \<open>DateTime\<close>, whatever the type of its argument, and
  \<open>time_bucket\<close> of \<open>logs22\<close> is a \<open>DateTime(0)\<close> column. Where the second count
  of \<open>t\<close>, floored to the interval, is in the range of \<open>DateTime\<close>, it is the result.
  Where it is not, the 32 bits cannot hold it and the engine promises nothing about the
  result but its type; the model takes the floored count modulo \<open>2 ^ 32\<close>.
  \<open>toStartOfMinute\<close> is the same with an interval of one minute.
\<close>

definition toStartOfInterval :: "datetime64 \<Rightarrow> nat \<Rightarrow> datetime" where
  "toStartOfInterval t minutes =
     ((t div 1000000) div (60 * int minutes) * (60 * int minutes)) mod 2 ^ 32"

definition toStartOfMinute :: "datetime64 \<Rightarrow> datetime" where
  "toStartOfMinute t = ((t div 1000000) div 60 * 60) mod 2 ^ 32"

text \<open>
  The stored row of an inserted one, \<open>now\<close> being the wall clock of the insert:
  \<open>time_bucket MATERIALIZED toStartOfInterval(timestamp, interval 1 minute)\<close> and
  \<open>created_at MATERIALIZED now()\<close>.
\<close>

definition materialize :: "datetime64 \<Rightarrow> log_insert \<Rightarrow> log_row" where
  "materialize now r =
     log_insert.extend r (log_row.fields (toStartOfInterval (timestamp r) 1) now)"

text \<open>\<open>m[k]\<close> on a map: the value of the first pair with that key, the empty string
  when there is none.\<close>

definition map_subscript :: "str_map \<Rightarrow> string \<Rightarrow> string" where
  "map_subscript m k = (case map_of m k of Some v \<Rightarrow> v | None \<Rightarrow> '''')"

text \<open>\<open>CONSTRAINT assume_service_name_attr ASSUME
  attributes_map_str['service.name__str'] = service_name\<close>: a predicate of the row that
  no insert evaluates.\<close>

definition assume_service_name_attr :: "'a log_payload_scheme \<Rightarrow> bool" where
  "assume_service_name_attr r =
     (map_subscript (attributes_map_str r) ''service.name__str'' = service_name r)"

text \<open>
  \<open>ORDER BY (team_id, time_bucket DESC, service_name, resource_attributes,
  severity_text, timestamp DESC, uuid, trace_id, span_id)\<close>: the sorting key of a row.
\<close>

type_synonym sorting_key =
  "int \<times> datetime \<times> string \<times> str_map \<times> string \<times> datetime64 \<times> string \<times> string \<times> string"

definition sorting_key :: "log_row \<Rightarrow> sorting_key" where
  "sorting_key r =
     (team_id r, time_bucket r, service_name r, resource_attributes r, severity_text r,
      timestamp r, uuid r, trace_id r, span_id r)"

subsection \<open>Merges and grouping\<close>

text \<open>\<open>SELECT k, count() GROUP BY k\<close> over a list of keys.\<close>

definition group_count :: "'k list \<Rightarrow> ('k \<times> nat) list" where
  "group_count ks = map (\<lambda>k. (k, count_list ks k)) (remdups ks)"

text \<open>The sum of the counters stored under a key, over every row of a counter table
  that has the key.\<close>

definition sum_for :: "'k \<Rightarrow> ('k \<times> nat) list \<Rightarrow> nat" where
  "sum_for k rows = sum_list (map snd (filter (\<lambda>row. fst row = k) rows))"

text \<open>A merge of an aggregating table whose only aggregate is a sum: one row for each
  key, holding the sum.\<close>

definition merge_sum :: "('k \<times> nat) list \<Rightarrow> ('k \<times> nat) list" where
  "merge_sum rows = map (\<lambda>k. (k, sum_for k rows)) (remdups (map fst rows))"

text \<open>
  A merge of a replacing table with no version column: of the rows with one sorting key,
  the last inserted stays. The rows are kept in insertion order; the physical order of a
  part, which is the order of the sorting key, is not modelled.
\<close>

fun replacing_merge :: "('a \<Rightarrow> 'k) \<Rightarrow> 'a list \<Rightarrow> 'a list" where
  "replacing_merge key [] = []"
| "replacing_merge key (r # rs) =
     (if key r \<in> set (map key rs) then replacing_merge key rs
      else r # replacing_merge key rs)"

subsection \<open>The projection \<open>projection_aggregate_counts\<close>\<close>

text \<open>Its GROUP BY: \<open>team_id, time_bucket, toStartOfMinute(timestamp), service_name,
  severity_text, resource_attributes, resource_id\<close>, with \<open>count() AS event_count\<close>.\<close>

type_synonym aggregate_key =
  "int \<times> datetime \<times> datetime \<times> string \<times> string \<times> str_map \<times> string"

definition aggregate_key :: "log_row \<Rightarrow> aggregate_key" where
  "aggregate_key r =
     (team_id r, time_bucket r, toStartOfMinute (timestamp r), service_name r,
      severity_text r, resource_attributes r, resource_id r)"

definition projection_aggregate_counts_of :: "log_row list \<Rightarrow> (aggregate_key \<times> nat) list" where
  "projection_aggregate_counts_of block = group_count (map aggregate_key block)"

subsection \<open>The projection \<open>projection_trace_span\<close>\<close>

text \<open>
  \<open>SELECT trace_id, timestamp, _part_offset ORDER BY trace_id, timestamp\<close>: for one
  trace id, the entries of the projection in its order, each a timestamp and the offset of
  the row it locates.
\<close>

definition projection_trace_span :: "log_row list \<Rightarrow> string \<Rightarrow> (datetime64 \<times> nat) list" where
  "projection_trace_span rows t =
     sort_key fst
       (map (\<lambda>(off, r). (timestamp r, off))
          (filter (\<lambda>(off, r). trace_id r = t) (enumerate 0 rows)))"

subsection \<open>The materialized view \<open>log_to_log_attributes\<close>\<close>

text \<open>
  A row of \<open>log_attributes\<close> is its key \<open>(team_id, time_bucket, service_name,
  attribute_key, attribute_value)\<close> and its \<open>attribute_count\<close>.
\<close>

type_synonym rollup_key = "int \<times> datetime \<times> string \<times> string \<times> string"

definition attribute_key :: "rollup_key \<Rightarrow> string" where
  "attribute_key k = (case k of (t, b, s, ak, av) \<Rightarrow> ak)"

definition attribute_value :: "rollup_key \<Rightarrow> string" where
  "attribute_value k = (case k of (t, b, s, ak, av) \<Rightarrow> av)"

definition rollup_team_id :: "rollup_key \<Rightarrow> int" where
  "rollup_team_id k = (case k of (t, b, s, ak, av) \<Rightarrow> t)"

definition rollup_time_bucket :: "rollup_key \<Rightarrow> datetime" where
  "rollup_time_bucket k = (case k of (t, b, s, ak, av) \<Rightarrow> b)"

definition rollup_service_name :: "rollup_key \<Rightarrow> string" where
  "rollup_service_name k = (case k of (t, b, s, ak, av) \<Rightarrow> s)"

text \<open>
  \<open>arrayMap((k, v) -> (k, if(length(v) > 256, '', v)),
  arrayFilter((k, v) -> (length(k) < 256), CAST(attributes, 'Array(Tuple(String, String))')))\<close>
\<close>

definition attribute_pairs :: "str_map \<Rightarrow> (string \<times> string) list" where
  "attribute_pairs attrs =
     map (\<lambda>(k, v). (k, if length v > 256 then '''' else v))
       (filter (\<lambda>(k, v). length k < 256) attrs)"

text \<open>
  The rows of the inner SELECT before grouping: \<open>arrayJoin\<close> gives one row for each pair,
  with \<open>team_id\<close>, \<open>toStartOfInterval(timestamp, toIntervalMinute(10)) AS time_bucket\<close>,
  \<open>service_name\<close> and the pair as \<open>attribute\<close>.
\<close>

definition attribute_rows ::
  "log_row list \<Rightarrow> (int \<times> datetime \<times> string \<times> (string \<times> string)) list" where
  "attribute_rows block =
     concat (map (\<lambda>r. map (\<lambda>a. (team_id r, toStartOfInterval (timestamp r) 10,
                                 service_name r, a))
                         (attribute_pairs (attributes r))) block)"

text \<open>
  The view on an inserted block: \<open>GROUP BY team_id, time_bucket, service_name, attribute\<close>
  with \<open>sumSimpleState(1) AS attribute_count\<close>, \<open>attribute.1 AS attribute_key\<close> and
  \<open>CAST(JSONExtract(attribute.2, 'Dynamic'), 'String') AS attribute_value\<close>. In the
  GROUP BY, \<open>time_bucket\<close> is the alias of the SELECT, the ten-minute bucket. The rows
  are grouped by the pair, before the cast: two groups may come out with one key, and the
  merge of \<open>log_attributes\<close> adds them. The JSON function of the engine is not part of
  the schema and is the parameter \<open>jx\<close>. A \<open>UInt64\<close> counter is a natural number.
\<close>

definition log_to_log_attributes ::
  "(string \<Rightarrow> string) \<Rightarrow> log_row list \<Rightarrow> (rollup_key \<times> nat) list" where
  "log_to_log_attributes jx block =
     map (\<lambda>((t, b, s, a), c). ((t, b, s, fst a, jx (snd a)), c))
       (group_count (attribute_rows block))"

text \<open>The key under which one pair of one record is counted.\<close>

definition rollup_key_of :: "(string \<Rightarrow> string) \<Rightarrow> log_row \<Rightarrow> string \<times> string \<Rightarrow> rollup_key" where
  "rollup_key_of jx r a =
     (team_id r, toStartOfInterval (timestamp r) 10, service_name r, fst a, jx (snd a))"

subsection \<open>The materialized view \<open>kafka_logs_avro_mv\<close>\<close>

text \<open>\<open>indexOf(arr, x)\<close>: the position of the first element equal to \<open>x\<close>, counted from
  1, and 0 when there is none.\<close>

fun indexOf :: "'a list \<Rightarrow> 'a \<Rightarrow> nat" where
  "indexOf [] x = 0"
| "indexOf (y # ys) x =
     (if y = x then 1 else (case indexOf ys x of 0 \<Rightarrow> 0 | Suc n \<Rightarrow> Suc (Suc n)))"

text \<open>\<open>arr[i]\<close> for an index that is not a constant: the element at position \<open>i\<close>
  counted from 1, the default value of the element type outside the array.\<close>

definition arrayElement :: "string list \<Rightarrow> nat \<Rightarrow> string" where
  "arrayElement arr i = (if 1 \<le> i \<and> i \<le> length arr then arr ! (i - 1) else '''')"

definition is_digit :: "char \<Rightarrow> bool" where
  "is_digit c = (48 \<le> (of_char c :: nat) \<and> (of_char c :: nat) \<le> 57)"

definition digits_value :: "string \<Rightarrow> int" where
  "digits_value ds = foldl (\<lambda>acc c. acc * 10 + (int (of_char c) - 48)) 0 ds"

text \<open>Reading a whole string as a decimal integer: an optional sign, then one digit or
  more, then the end of the string.\<close>

definition read_int_text :: "string \<Rightarrow> int option" where
  "read_int_text s =
     (let (negative, ds) =
            (case s of
               c # rest \<Rightarrow>
                 if c = CHR ''-'' then (True, rest)
                 else if c = CHR ''+'' then (False, rest)
                 else (False, s)
             | [] \<Rightarrow> (False, s))
      in if ds = [] \<or> \<not> list_all is_digit ds then None
         else Some (if negative then - digits_value ds else digits_value ds))"

text \<open>\<open>toInt32OrZero\<close>: the integer the string denotes when it denotes one that an
  \<open>Int32\<close> holds, and zero otherwise.\<close>

definition toInt32OrZero :: "string \<Rightarrow> int" where
  "toInt32OrZero s =
     (case read_int_text s of
        Some n \<Rightarrow> if - (2 ^ 31) \<le> n \<and> n < 2 ^ 31 then n else 0
      | None \<Rightarrow> 0)"

text \<open>\<open>toInt32OrZero(_headers.value[indexOf(_headers.name, 'team_id')])\<close>\<close>

definition header_team_id :: "(string \<times> string) list \<Rightarrow> int" where
  "header_team_id hs =
     toInt32OrZero (arrayElement (map snd hs) (indexOf (map fst hs) ''team_id''))"

text \<open>\<open>SELECT *, toInt32OrZero(...) AS team_id FROM kafka_logs_avro\<close>\<close>

definition kafka_logs_avro_mv :: "kafka_message \<Rightarrow> log_insert" where
  "kafka_logs_avro_mv m =
     log_payload.extend (payload m) (log_insert.fields (header_team_id (headers m)))"

subsection \<open>The database and what changes it\<close>

text \<open>
  The state is the rows of \<open>logs22\<close>, the parts of its two projections, and the rows of
  \<open>log_attributes\<close>. The parts of \<open>projection_aggregate_counts\<close> are their groups.
  The parts of \<open>projection_trace_span\<close> hold a trace id, a timestamp and a locator for
  every row written to them: they are given by these rows in the order written, the
  locator of a row being its position among them, and the entries for a trace id are
  \<open>projection_trace_span\<close> of these rows.
\<close>

record logs_db =
  logs22 :: "log_row list"
  projection_trace_span_parts :: "log_row list"
  projection_aggregate_counts :: "(aggregate_key \<times> nat) list"
  log_attributes :: "(rollup_key \<times> nat) list"

definition empty_db :: logs_db where
  "empty_db =
     \<lparr>logs22 = [], projection_trace_span_parts = [], projection_aggregate_counts = [],
      log_attributes = []\<rparr>"

text \<open>
  An INSERT of a block into \<open>logs22\<close>: the materialized columns are computed, the rows
  are appended as a new part together with the parts of the two projections, and the view
  \<open>log_to_log_attributes\<close> appends what it selects from the block to \<open>log_attributes\<close>.
\<close>

definition insert_logs22 ::
  "(string \<Rightarrow> string) \<Rightarrow> datetime64 \<Rightarrow> log_insert list \<Rightarrow> logs_db \<Rightarrow> logs_db" where
  "insert_logs22 jx now block db =
     (let rows = map (materialize now) block
      in \<lparr>logs22 = logs22 db @ rows,
          projection_trace_span_parts = projection_trace_span_parts db @ rows,
          projection_aggregate_counts =
            projection_aggregate_counts db @ projection_aggregate_counts_of rows,
          log_attributes = log_attributes db @ log_to_log_attributes jx rows\<rparr>)"

text \<open>
  \<open>ENGINE = ReplicatedReplacingMergeTree\<close> with \<open>deduplicate_merge_projection_mode =
  'ignore'\<close>: a merge collapses the rows of \<open>logs22\<close> by sorting key, and neither
  projection is rebuilt from the collapsed rows. The parts of each projection are merged
  as what they are: those of \<open>projection_aggregate_counts\<close> as aggregating parts, which
  sums \<open>event_count\<close> for each key; those of \<open>projection_trace_span\<close> as ordinary
  parts, which keeps every entry. Both go on describing every row that was written. That
  is what the value \<open>'ignore'\<close> of the setting selects; the schema does not use the other
  values (\<open>throw\<close>, \<open>drop\<close>, \<open>rebuild\<close>) and they are not modelled.
\<close>

definition merge_logs22 :: "logs_db \<Rightarrow> logs_db" where
  "merge_logs22 db =
     db\<lparr>logs22 := replacing_merge sorting_key (logs22 db),
        projection_aggregate_counts := merge_sum (projection_aggregate_counts db)\<rparr>"

text \<open>\<open>ENGINE = ReplicatedAggregatingMergeTree\<close> with
  \<open>attribute_count SimpleAggregateFunction(sum, UInt64)\<close>.\<close>

definition merge_log_attributes :: "logs_db \<Rightarrow> logs_db" where
  "merge_log_attributes db = db\<lparr>log_attributes := merge_sum (log_attributes db)\<rparr>"

datatype db_op =
    Insert datetime64 "log_insert list"
  | Consume datetime64 "kafka_message list"
  | Merge_logs22
  | Merge_log_attributes

fun step :: "(string \<Rightarrow> string) \<Rightarrow> logs_db \<Rightarrow> db_op \<Rightarrow> logs_db" where
  "step jx db (Insert now block) = insert_logs22 jx now block db"
| "step jx db (Consume now msgs) = insert_logs22 jx now (map kafka_logs_avro_mv msgs) db"
| "step jx db Merge_logs22 = merge_logs22 db"
| "step jx db Merge_log_attributes = merge_log_attributes db"

definition run :: "(string \<Rightarrow> string) \<Rightarrow> db_op list \<Rightarrow> logs_db" where
  "run jx ops = foldl (step jx) empty_db ops"

text \<open>An operation as it is when only one tenant's records are ingested: the records
  and messages of the other tenants are taken out of its block.\<close>

fun only_team :: "int \<Rightarrow> db_op \<Rightarrow> db_op" where
  "only_team team (Insert now block) = Insert now (filter (\<lambda>r. team_id r = team) block)"
| "only_team team (Consume now msgs) =
     Consume now (filter (\<lambda>m. header_team_id (headers m) = team) msgs)"
| "only_team team Merge_logs22 = Merge_logs22"
| "only_team team Merge_log_attributes = Merge_log_attributes"

text \<open>What a database holds of one tenant: the rows of \<open>logs22\<close>, the rows that the
  trace projection locates, the groups of the aggregate projection and the rows of
  \<open>log_attributes\<close> whose \<open>team_id\<close> is the tenant's.\<close>

definition tenant_view :: "int \<Rightarrow> logs_db \<Rightarrow> logs_db" where
  "tenant_view team db =
     \<lparr>logs22 = filter (\<lambda>r. team_id r = team) (logs22 db),
      projection_trace_span_parts =
        filter (\<lambda>r. team_id r = team) (projection_trace_span_parts db),
      projection_aggregate_counts =
        filter (\<lambda>row. fst (fst row) = team) (projection_aggregate_counts db),
      log_attributes = filter (\<lambda>row. rollup_team_id (fst row) = team) (log_attributes db)\<rparr>"


subsection \<open>Keys, indexes and settings as the schema declares them\<close>

definition logs22_order_by :: "string list" where
  "logs22_order_by =
     [''team_id'', ''time_bucket'', ''service_name'', ''resource_attributes'',
      ''severity_text'', ''timestamp'', ''uuid'', ''trace_id'', ''span_id'']"

definition logs22_partition_by :: "string list" where
  "logs22_partition_by = [''toDate(timestamp)'']"

definition projection_trace_span_order_by :: "string list" where
  "projection_trace_span_order_by = [''trace_id'', ''timestamp'']"

definition projection_aggregate_counts_group_by :: "string list" where
  "projection_aggregate_counts_group_by =
     [''team_id'', ''time_bucket'', ''toStartOfMinute(timestamp)'', ''service_name'',
      ''severity_text'', ''resource_attributes'', ''resource_id'']"

definition log_attributes_order_by :: "string list" where
  "log_attributes_order_by =
     [''team_id'', ''service_name'', ''time_bucket'', ''attribute_key'', ''attribute_value'']"

definition log_attributes_partition_by :: "string list" where
  "log_attributes_partition_by = [''toDate(time_bucket)'']"

definition log_to_log_attributes_group_by :: "string list" where
  "log_to_log_attributes_group_by =
     [''team_id'', ''time_bucket'', ''service_name'', ''attribute'']"

datatype index_type =
    bloom_filter rat
  | set_index nat
  | ngrambf_v1 nat nat nat nat
  | tokenbf_v1 nat nat nat

record skip_index =
  index_name :: string
  index_expression :: string
  index_type :: index_type
  granularity :: nat

definition logs22_indexes :: "skip_index list" where
  "logs22_indexes =
     [\<lparr>index_name = ''idx_mat_body_ipv4_matches'', index_expression = ''mat_body_ipv4_matches'',
       index_type = bloom_filter (1 / 100), granularity = 1\<rparr>,
      \<lparr>index_name = ''idx_mat_body_ngram'', index_expression = ''mat_body_ngram'',
       index_type = bloom_filter (1 / 100), granularity = 1\<rparr>,
      \<lparr>index_name = ''idx_severity_text_set'', index_expression = ''severity_text'',
       index_type = set_index 10, granularity = 1\<rparr>,
      \<lparr>index_name = ''idx_attributes_str_keys'',
       index_expression = ''mapKeys(attributes_map_str)'',
       index_type = bloom_filter (1 / 100), granularity = 1\<rparr>,
      \<lparr>index_name = ''idx_attributes_str_values'',
       index_expression = ''mapValues(attributes_map_str)'',
       index_type = bloom_filter (1 / 1000), granularity = 1\<rparr>,
      \<lparr>index_name = ''idx_body_ngram'', index_expression = ''body'',
       index_type = ngrambf_v1 3 20000 4 0, granularity = 1\<rparr>,
      \<lparr>index_name = ''idx_body_token'', index_expression = ''body'',
       index_type = tokenbf_v1 10000 4 0, granularity = 1\<rparr>]"

definition log_attributes_indexes :: "skip_index list" where
  "log_attributes_indexes =
     [\<lparr>index_name = ''idx_attribute_key'', index_expression = ''attribute_key'',
       index_type = bloom_filter (1 / 100), granularity = 1\<rparr>,
      \<lparr>index_name = ''idx_attribute_value'', index_expression = ''attribute_value'',
       index_type = bloom_filter (1 / 1000), granularity = 1\<rparr>,
      \<lparr>index_name = ''idx_attribute_key_n3'', index_expression = ''attribute_key'',
       index_type = ngrambf_v1 3 32768 3 0, granularity = 1\<rparr>,
      \<lparr>index_name = ''idx_attribute_value_n3'', index_expression = ''attribute_value'',
       index_type = ngrambf_v1 3 32768 3 0, granularity = 1\<rparr>]"

text \<open>The false-positive rate an index is declared with, for the indexes that have
  one: the argument of \<open>bloom_filter\<close>.\<close>

fun false_positive_rate :: "index_type \<Rightarrow> rat option" where
  "false_positive_rate (bloom_filter p) = Some p"
| "false_positive_rate (set_index n) = None"
| "false_positive_rate (ngrambf_v1 n bytes hashes seed) = None"
| "false_positive_rate (tokenbf_v1 bytes hashes seed) = None"

definition index_rate :: "skip_index list \<Rightarrow> string \<Rightarrow> rat option" where
  "index_rate indexes name =
     (case find (\<lambda>i. index_name i = name) indexes of
        None \<Rightarrow> None
      | Some i \<Rightarrow> false_positive_rate (index_type i))"

text \<open>\<open>SETTINGS kafka_skip_broken_messages = 100\<close> of \<open>kafka_logs_avro\<close>.\<close>

definition kafka_skip_broken_messages :: nat where
  "kafka_skip_broken_messages = 100"

subsection \<open>The query surface\<close>

text \<open>
  The schema holds no query. The four read operations are modelled from the
  specification, over the tables and projections above. A time range is the half-open
  interval from \<open>lo\<close> to \<open>hi\<close>.
\<close>

text \<open>Modelled from the spec: \<open>getByTrace(team_id, trace_id)\<close>, the records of one
  trace of one tenant ordered by timestamp, served by the trace-ordered layout: the
  entries that the parts of \<open>projection_trace_span\<close> hold for the trace id, each
  resolved to the row it locates, of which the rows of the tenant are returned.\<close>

definition getByTrace :: "logs_db \<Rightarrow> int \<Rightarrow> string \<Rightarrow> log_row list" where
  "getByTrace db team t =
     filter (\<lambda>r. team_id r = team)
       (map (\<lambda>(ts, off). projection_trace_span_parts db ! off)
          (projection_trace_span (projection_trace_span_parts db) t))"

fun starts_with :: "string \<Rightarrow> string \<Rightarrow> bool" where
  "starts_with s [] = True"
| "starts_with [] (c # p) = False"
| "starts_with (a # s) (c # p) = (a = c \<and> starts_with s p)"

fun contains :: "string \<Rightarrow> string \<Rightarrow> bool" where
  "contains [] sub = (sub = [])"
| "contains (a # s) sub = (starts_with (a # s) sub \<or> contains s sub)"

text \<open>Modelled from the spec: \<open>searchByText(team_id, time_range, substring)\<close>, the
  records of the tenant in the range whose body contains the substring; the index only
  selects candidate blocks and every result is verified by the direct match, so the result
  is that of the match. The order of the result is the stored order.\<close>

definition searchByText :: "logs_db \<Rightarrow> int \<Rightarrow> datetime64 \<Rightarrow> datetime64 \<Rightarrow> string \<Rightarrow> log_row list" where
  "searchByText db team lo hi sub =
     filter (\<lambda>r. team_id r = team \<and> lo \<le> timestamp r \<and> timestamp r < hi
                  \<and> contains (body r) sub)
       (logs22 db)"

text \<open>Modelled from the spec: \<open>listAttributes(team_id, time_range, service_name?)\<close>,
  for each attribute key and value of the tenant in the range (and of the service, when
  one is given) its count, served entirely from the rollup table.\<close>

definition listAttributes ::
  "logs_db \<Rightarrow> int \<Rightarrow> datetime \<Rightarrow> datetime \<Rightarrow> string option \<Rightarrow> ((string \<times> string) \<times> nat) list" where
  "listAttributes db team lo hi service =
     merge_sum
       (map (\<lambda>(k, c). ((attribute_key k, attribute_value k), c))
          (filter (\<lambda>(k, c). rollup_team_id k = team
                     \<and> lo \<le> rollup_time_bucket k \<and> rollup_time_bucket k < hi
                     \<and> (case service of None \<Rightarrow> True | Some s \<Rightarrow> rollup_service_name k = s))
             (log_attributes db)))"

datatype dimension = By_service_name | By_severity_text | By_resource_attributes | By_resource_id

datatype dimension_value = Text string | Attributes str_map

fun dimension_of :: "aggregate_key \<Rightarrow> dimension \<Rightarrow> dimension_value" where
  "dimension_of (team, bucket, minute, service, severity, resource, rid) By_service_name =
     Text service"
| "dimension_of (team, bucket, minute, service, severity, resource, rid) By_severity_text =
     Text severity"
| "dimension_of (team, bucket, minute, service, severity, resource, rid) By_resource_attributes =
     Attributes resource"
| "dimension_of (team, bucket, minute, service, severity, resource, rid) By_resource_id =
     Text rid"

text \<open>The counts of a coarse aggregate layout for a tenant, a range of time buckets and
  a grouping.\<close>

definition counts_by ::
  "(aggregate_key \<times> nat) list \<Rightarrow> int \<Rightarrow> datetime \<Rightarrow> datetime \<Rightarrow> dimension list
     \<Rightarrow> (dimension_value list \<times> nat) list" where
  "counts_by layout team lo hi group_by =
     merge_sum
       (map (\<lambda>(k, c). (map (dimension_of k) group_by, c))
          (filter (\<lambda>(k, c). fst k = team \<and> lo \<le> fst (snd k) \<and> fst (snd k) < hi) layout))"

text \<open>Modelled from the spec: \<open>aggregateCounts(team_id, time_range, groupBy)\<close> with
  \<open>groupBy\<close> among service name, severity text, resource attributes and resource id,
  which the coarse aggregate layout pre-groups: it is served by that layout.\<close>

definition aggregateCounts ::
  "logs_db \<Rightarrow> int \<Rightarrow> datetime \<Rightarrow> datetime \<Rightarrow> dimension list \<Rightarrow> (dimension_value list \<times> nat) list" where
  "aggregateCounts db team lo hi group_by =
     counts_by (projection_aggregate_counts db) team lo hi group_by"


subsection \<open>The stream consumer\<close>

text \<open>
  The schema only sets the threshold, \<open>kafka_skip_broken_messages\<close>; the consumer is
  the engine's.
\<close>

datatype transport_message = Malformed | Decoded kafka_message

datatype ingestion_status = Consuming | StreamStallError

text \<open>Modelled from the spec: the consumer of the stream. A malformed message is
  skipped while the run of consecutive malformed messages does not exceed the threshold;
  the message that makes the run exceed it is the fatal stall, at which ingestion halts.
  \<open>streak\<close> is the length of the run so far; the result is the decoded messages handed
  on and the status.\<close>

fun consume :: "nat \<Rightarrow> nat \<Rightarrow> transport_message list \<Rightarrow> kafka_message list \<times> ingestion_status" where
  "consume threshold streak [] = ([], Consuming)"
| "consume threshold streak (Malformed # ms) =
     (if Suc streak > threshold then ([], StreamStallError)
      else consume threshold (Suc streak) ms)"
| "consume threshold streak (Decoded m # ms) =
     (case consume threshold 0 ms of (out, status) \<Rightarrow> (m # out, status))"

subsection \<open>Sample rows\<close>

definition sample_payload :: log_payload where
  "sample_payload =
     \<lparr>uuid = ''u1'', trace_id = ''T1'', span_id = ''s1'', trace_flags = 0,
      timestamp = 90000000, observed_timestamp = 90000000, body = ''started'',
      severity_text = ''info'', severity_number = 9, service_name = ''api'',
      resource_attributes = [], resource_id = ''r1'', instrumentation_scope = [],
      event_name = [], attributes = [(''env'', ''prod'')], attributes_map_str = [],
      attributes_map_float = [], attributes_map_datetime = []\<rparr>"

definition sample_insert :: "int \<Rightarrow> log_insert" where
  "sample_insert team = log_payload.extend sample_payload (log_insert.fields team)"

section \<open>Facts about the column expressions and the engine\<close>

lemma floor_multiple:
  fixes x w :: int
  assumes "0 < w"
  shows "x div w * w \<le> x" and "x < x div w * w + w"
proof -
  have e: "x div w * w + x mod w = x" by (rule div_mult_mod_eq)
  have "0 \<le> x mod w" using assms by (rule pos_mod_sign)
  with e show "x div w * w \<le> x" by linarith
  have "x mod w < w" using assms by (rule pos_mod_bound)
  with e show "x < x div w * w + w" by linarith
qed

lemma toStartOfInterval_range:
  "0 \<le> toStartOfInterval t n" "toStartOfInterval t n < 2 ^ 32"
  by (simp_all add: toStartOfInterval_def)

lemma toStartOfInterval_floor:
  assumes "0 < n" and "0 \<le> t" and "t < 2 ^ 32 * 1000000"
  shows "toStartOfInterval t n * 1000000 \<le> t"
    and "t < (toStartOfInterval t n + 60 * int n) * 1000000"
    and "toStartOfInterval t n mod (60 * int n) = 0"
proof -
  define w where "w = 60 * int n"
  define s where "s = t div 1000000"
  define b where "b = s div w * w"
  have w: "0 < w" using assms(1) by (simp add: w_def)
  have a: "b \<le> s" unfolding b_def using w by (rule floor_multiple)
  have a': "s + 1 \<le> b + w" using floor_multiple(2) [OF w, of s] by (simp add: b_def)
  have c: "s * 1000000 \<le> t" unfolding s_def by (rule floor_multiple) simp
  have d: "t < s * 1000000 + 1000000" unfolding s_def by (rule floor_multiple) simp
  have s0: "0 \<le> s" unfolding s_def using assms(2) by (simp add: pos_imp_zdiv_nonneg_iff)
  have s1: "s < 2 ^ 32"
  proof (rule ccontr)
    assume "\<not> s < 2 ^ 32"
    then have "(2 ^ 32 :: int) * 1000000 \<le> s * 1000000" by simp
    with c assms(3) show False by linarith
  qed
  have "0 \<le> s div w" using s0 w by (simp add: pos_imp_zdiv_nonneg_iff)
  then have b0: "0 \<le> b" unfolding b_def using w by simp
  have b1: "b < 2 ^ 32" using a s1 by linarith
  have tb: "toStartOfInterval t n = b"
    using b0 b1 by (simp add: toStartOfInterval_def b_def s_def w_def)
  have "b * 1000000 \<le> s * 1000000" using a by simp
  with c show "toStartOfInterval t n * 1000000 \<le> t" unfolding tb by linarith
  have "(s + 1) * 1000000 \<le> (b + w) * 1000000" using a' by simp
  with d have "t < (b + w) * 1000000" by (simp add: algebra_simps)
  then show "t < (toStartOfInterval t n + 60 * int n) * 1000000"
    unfolding tb w_def .
  show "toStartOfInterval t n mod (60 * int n) = 0"
    unfolding tb b_def w_def by simp
qed

lemma materialize_simps:
  "team_id (materialize now r) = team_id r"
  "timestamp (materialize now r) = timestamp r"
  "service_name (materialize now r) = service_name r"
  "severity_text (materialize now r) = severity_text r"
  "resource_attributes (materialize now r) = resource_attributes r"
  "resource_id (materialize now r) = resource_id r"
  "attributes (materialize now r) = attributes r"
  "attributes_map_str (materialize now r) = attributes_map_str r"
  "uuid (materialize now r) = uuid r"
  "trace_id (materialize now r) = trace_id r"
  "span_id (materialize now r) = span_id r"
  "body (materialize now r) = body r"
  "time_bucket (materialize now r) = toStartOfInterval (timestamp r) 1"
  "created_at (materialize now r) = now"
  by (simp_all add: materialize_def log_insert.defs log_row.defs)

lemmas sample_defs = sample_insert_def sample_payload_def log_payload.defs log_insert.defs

lemma insert_logs22_simps:
  "logs22 (insert_logs22 jx now block db) = logs22 db @ map (materialize now) block"
  "projection_aggregate_counts (insert_logs22 jx now block db) =
     projection_aggregate_counts db
       @ projection_aggregate_counts_of (map (materialize now) block)"
  "log_attributes (insert_logs22 jx now block db) =
     log_attributes db @ log_to_log_attributes jx (map (materialize now) block)"
  "projection_trace_span_parts (insert_logs22 jx now block db) =
     projection_trace_span_parts db @ map (materialize now) block"
  by (simp_all add: insert_logs22_def Let_def)

lemma set_replacing_merge: "set (replacing_merge key rs) \<subseteq> set rs"
  by (induction rs) auto

lemma logs22_step:
  "set (logs22 (step jx db op)) \<subseteq> set (logs22 db) \<union> {materialize now r | now r. True}"
proof (cases op)
  case (Insert now block)
  then show ?thesis by (auto simp: insert_logs22_simps)
next
  case (Consume now msgs)
  then show ?thesis by (auto simp: insert_logs22_simps)
next
  case Merge_logs22
  then show ?thesis using set_replacing_merge [of sorting_key "logs22 db"]
    by (auto simp: merge_logs22_def)
next
  case Merge_log_attributes
  then show ?thesis by (simp add: merge_log_attributes_def)
qed

lemma run_snoc: "run jx (ops @ [op]) = step jx (run jx ops) op"
  by (simp add: run_def)

lemma logs22_run:
  "r \<in> set (logs22 (run jx ops)) \<Longrightarrow> \<exists>now i. r = materialize now i"
proof (induction ops arbitrary: r rule: rev_induct)
  case Nil
  then show ?case by (simp add: run_def empty_db_def)
next
  case (snoc op ops)
  with logs22_step [of jx "run jx ops" op]
  have "r \<in> set (logs22 (run jx ops)) \<or> (\<exists>now i. r = materialize now i)"
    unfolding run_snoc by auto
  with snoc.IH show ?case by blast
qed

lemma attribute_pairs_key: "(k, v) \<in> set (attribute_pairs attrs) \<Longrightarrow> length k < 256"
  by (auto simp: attribute_pairs_def)

lemma attribute_pairs_long_value:
  "(k, v) \<in> set attrs \<Longrightarrow> length k < 256 \<Longrightarrow> 256 < length v \<Longrightarrow>
   (k, []) \<in> set (attribute_pairs attrs)"
  by (force simp: attribute_pairs_def)

lemma attribute_pairs_short_value:
  "(k, v) \<in> set attrs \<Longrightarrow> length k < 256 \<Longrightarrow> length v \<le> 256 \<Longrightarrow>
   (k, v) \<in> set (attribute_pairs attrs)"
  by (force simp: attribute_pairs_def)

lemma set_group_count: "set (group_count ks) = (\<lambda>k. (k, count_list ks k)) ` set ks"
  by (simp add: group_count_def)

lemma set_attribute_rows:
  "set (attribute_rows block) =
     {(team_id r, toStartOfInterval (timestamp r) 10, service_name r, a) | r a.
        r \<in> set block \<and> a \<in> set (attribute_pairs (attributes r))}"
  by (auto simp: attribute_rows_def)

lemma attribute_rows_mem:
  "r \<in> set block \<Longrightarrow> a \<in> set (attribute_pairs (attributes r)) \<Longrightarrow>
   (team_id r, toStartOfInterval (timestamp r) 10, service_name r, a)
     \<in> set (attribute_rows block)"
  unfolding set_attribute_rows by blast

lemma log_to_log_attributes_rows:
  "(k, c) \<in> set (log_to_log_attributes jx block) \<longleftrightarrow>
     (\<exists>t b s a. (t, b, s, a) \<in> set (attribute_rows block) \<and>
        k = (t, b, s, fst a, jx (snd a)) \<and>
        c = count_list (attribute_rows block) (t, b, s, a))"
  unfolding log_to_log_attributes_def set_map set_group_count image_image
  by (auto simp: image_iff) force+

lemma log_to_log_attributes_iff:
  "(k, c) \<in> set (log_to_log_attributes jx block) \<longleftrightarrow>
     (\<exists>r a. r \<in> set block \<and> a \<in> set (attribute_pairs (attributes r)) \<and>
        k = rollup_key_of jx r a \<and>
        c = count_list (attribute_rows block)
              (team_id r, toStartOfInterval (timestamp r) 10, service_name r, a))"
  unfolding log_to_log_attributes_rows set_attribute_rows rollup_key_of_def
  by blast

lemma log_to_log_attributes_mem:
  "r \<in> set block \<Longrightarrow> a \<in> set (attribute_pairs (attributes r)) \<Longrightarrow>
   (rollup_key_of jx r a,
    count_list (attribute_rows block)
      (team_id r, toStartOfInterval (timestamp r) 10, service_name r, a))
     \<in> set (log_to_log_attributes jx block)"
  unfolding log_to_log_attributes_iff by blast

lemma log_to_log_attributes_key:
  "(k, c) \<in> set (log_to_log_attributes jx block) \<Longrightarrow> length (attribute_key k) < 256"
  unfolding log_to_log_attributes_iff
  by (auto simp: rollup_key_of_def attribute_key_def dest: attribute_pairs_key)

lemma set_merge_sum_fst: "fst ` set (merge_sum rows) = fst ` set rows"
  by (force simp: merge_sum_def)

lemma log_attributes_step:
  "fst ` set (log_attributes (step jx db op)) \<subseteq>
     fst ` set (log_attributes db) \<union> {k. length (attribute_key k) < 256}"
proof (cases op)
  case (Insert now block)
  then show ?thesis
    by (auto simp: insert_logs22_simps dest: log_to_log_attributes_key)
next
  case (Consume now msgs)
  then show ?thesis
    by (auto simp: insert_logs22_simps dest: log_to_log_attributes_key)
next
  case Merge_logs22
  then show ?thesis by (simp add: merge_logs22_def)
next
  case Merge_log_attributes
  then show ?thesis by (simp add: merge_log_attributes_def set_merge_sum_fst)
qed

lemma log_attributes_run:
  "(k, c) \<in> set (log_attributes (run jx ops)) \<Longrightarrow> length (attribute_key k) < 256"
proof (induction ops arbitrary: k c rule: rev_induct)
  case Nil
  then show ?case by (simp add: run_def empty_db_def)
next
  case (snoc op ops)
  from snoc.prems have "k \<in> fst ` set (log_attributes (step jx (run jx ops) op))"
    unfolding run_snoc by force
  with log_attributes_step [of jx "run jx ops" op]
  have "k \<in> fst ` set (log_attributes (run jx ops)) \<or> length (attribute_key k) < 256" by blast
  with snoc.IH show ?case by auto
qed

lemma listAttributes_key:
  assumes "((ak, av), c) \<in> set (listAttributes db team lo hi service)"
  shows "\<exists>k c'. (k, c') \<in> set (log_attributes db) \<and> attribute_key k = ak
           \<and> attribute_value k = av \<and> rollup_team_id k = team"
proof -
  from assms have "(ak, av) \<in> fst ` set (listAttributes db team lo hi service)" by force
  then show ?thesis
    unfolding listAttributes_def set_merge_sum_fst by (auto simp del: split_paired_Ex)
qed

lemma count_list_pos: "x \<in> set xs \<Longrightarrow> 0 < count_list xs x"
  by (induction xs) auto

section \<open>The time bucket\<close>

text \<open>
  C4, as the column is typed. Bucket determinism. Whatever inserts, Kafka blocks and
  merges a database has gone through, every row \<open>r\<close> of \<open>logs22\<close> has
  \<open>time_bucket r\<close> equal to \<open>toStartOfInterval(timestamp, interval 1 minute)\<close>, a
  \<open>DateTime\<close>. For a timestamp in the range of \<open>DateTime\<close>, from the epoch to the
  last second that 32 bits count, this is the timestamp floored to the minute: a multiple
  of 60 seconds that is at most the timestamp and less than 60 seconds below it. The
  writer cannot set it: an insert carries a \<open>log_insert\<close>, which has no such column, and
  two stored rows (of any two histories) with one timestamp have one time bucket, whatever
  else their writers supplied.
\<close>

theorem time_bucket_determinism:
  assumes "r \<in> set (logs22 (run jx ops))"
  shows "time_bucket r = toStartOfInterval (timestamp r) 1
       \<and> 0 \<le> time_bucket r \<and> time_bucket r < 2 ^ 32
       \<and> (0 \<le> timestamp r \<and> timestamp r < 2 ^ 32 * 1000000 \<longrightarrow>
            time_bucket r * 1000000 \<le> timestamp r
            \<and> timestamp r < (time_bucket r + 60) * 1000000
            \<and> time_bucket r mod 60 = 0)
       \<and> (\<forall>r' \<in> set (logs22 (run jx' ops')).
             timestamp r' = timestamp r \<longrightarrow> time_bucket r' = time_bucket r)"
proof -
  have tb: "time_bucket x = toStartOfInterval (timestamp x) 1"
    if "x \<in> set (logs22 (run j os))" for x j os
  proof -
    from that obtain now i where "x = materialize now i" using logs22_run by blast
    then show ?thesis by (simp add: materialize_simps)
  qed
  have b: "time_bucket r = toStartOfInterval (timestamp r) 1" using assms by (rule tb)
  have "0 \<le> time_bucket r" "time_bucket r < 2 ^ 32"
    unfolding b by (rule toStartOfInterval_range)+
  moreover have "time_bucket r * 1000000 \<le> timestamp r
            \<and> timestamp r < (time_bucket r + 60) * 1000000
            \<and> time_bucket r mod 60 = 0"
    if "0 \<le> timestamp r" "timestamp r < 2 ^ 32 * 1000000"
    unfolding b using toStartOfInterval_floor [of 1 "timestamp r"] that by simp
  moreover have "\<forall>r' \<in> set (logs22 (run jx' ops')).
             timestamp r' = timestamp r \<longrightarrow> time_bucket r' = time_bucket r"
    using tb b by simp
  ultimately show ?thesis using b by blast
qed

theorem time_bucket_determinism_witness:
  "materialize 5 (sample_insert 7)
     \<in> set (logs22 (run id [Insert 5 [sample_insert 7], Merge_logs22]))
   \<and> timestamp (materialize 5 (sample_insert 7)) = 90000000
   \<and> time_bucket (materialize 5 (sample_insert 7)) = 60
   \<and> time_bucket (materialize 5 (sample_insert 7)) * 1000000
       \<le> timestamp (materialize 5 (sample_insert 7))
   \<and> timestamp (materialize 5 (sample_insert 7))
       < (time_bucket (materialize 5 (sample_insert 7)) + 60) * 1000000"
proof -
  have m: "materialize 5 (sample_insert 7)
             \<in> set (logs22 (run id [Insert 5 [sample_insert 7], Merge_logs22]))"
    by (simp add: run_def empty_db_def merge_logs22_def insert_logs22_simps)
  have t: "timestamp (materialize 5 (sample_insert 7)) = 90000000"
    by (simp add: materialize_simps sample_defs)
  have h: "0 \<le> timestamp (materialize 5 (sample_insert 7))
           \<and> timestamp (materialize 5 (sample_insert 7)) < 2 ^ 32 * 1000000"
    unfolding t by simp
  have "time_bucket (materialize 5 (sample_insert 7)) = 60"
    by (simp add: materialize_simps sample_defs toStartOfInterval_def)
  with time_bucket_determinism [OF m] h m t show ?thesis by blast
qed

text \<open>
  C4 as stated, for every stored record, fails before the epoch (and after the last
  second a \<open>DateTime\<close> counts): a record whose timestamp is one microsecond before the
  epoch is stored; the minute that contains it starts 60 seconds before the epoch, which
  no \<open>DateTime\<close> is, and the time bucket stored, not being negative, is later than the
  timestamp.
\<close>

theorem time_bucket_before_epoch_counterexample:
  "materialize 5 ((sample_insert 7)\<lparr>timestamp := - 1\<rparr>)
     \<in> set (logs22 (run id [Insert 5 [(sample_insert 7)\<lparr>timestamp := - 1\<rparr>]]))
   \<and> timestamp (materialize 5 ((sample_insert 7)\<lparr>timestamp := - 1\<rparr>)) = - 1
   \<and> 0 \<le> time_bucket (materialize 5 ((sample_insert 7)\<lparr>timestamp := - 1\<rparr>))
   \<and> \<not> time_bucket (materialize 5 ((sample_insert 7)\<lparr>timestamp := - 1\<rparr>)) * 1000000
         \<le> timestamp (materialize 5 ((sample_insert 7)\<lparr>timestamp := - 1\<rparr>))"
  by (simp add: run_def empty_db_def insert_logs22_simps materialize_simps sample_defs
      toStartOfInterval_def)

section \<open>The length guards of the rollup\<close>

text \<open>
  C3, as the view has it. Rollup truncation. A key of 256 bytes or more never produces a
  rollup row: in any database reached by inserts, Kafka blocks and merges every row of
  \<open>log_attributes\<close>, and so every entry that \<open>listAttributes\<close> returns, has a key
  shorter than 256. A value longer than 256 bytes under a kept key produces a rollup row
  for the empty string: its \<open>attribute_value\<close> is what the view's JSON cast gives for
  \<open>''\<close>. The stored record is not touched: it is among the rows of \<open>logs22\<close> with the
  attributes map it was inserted with.
\<close>

theorem rollup_truncation:
  "(\<forall>(k, c) \<in> set (log_attributes (run jx ops)). length (attribute_key k) < 256) \<and>
   (\<forall>((ak, av), c) \<in> set (listAttributes (run jx ops) team lo hi service). length ak < 256) \<and>
   (\<forall>r \<in> set block. \<forall>(k, v) \<in> set (attributes r). length k < 256 \<and> 256 < length v \<longrightarrow>
      (\<exists>c > 0. ((team_id r, toStartOfInterval (timestamp r) 10, service_name r, k, jx ''''), c)
         \<in> set (log_to_log_attributes jx (map (materialize now) block)))) \<and>
   (\<forall>r \<in> set block. materialize now r \<in> set (logs22 (insert_logs22 jx now block db))
      \<and> attributes (materialize now r) = attributes r)"
proof (intro conjI)
  show "\<forall>(k, c) \<in> set (log_attributes (run jx ops)). length (attribute_key k) < 256"
    using log_attributes_run by blast
  show "\<forall>((ak, av), c) \<in> set (listAttributes (run jx ops) team lo hi service). length ak < 256"
    using listAttributes_key log_attributes_run by blast
  show "\<forall>r \<in> set block. \<forall>(k, v) \<in> set (attributes r). length k < 256 \<and> 256 < length v \<longrightarrow>
      (\<exists>c > 0. ((team_id r, toStartOfInterval (timestamp r) 10, service_name r, k, jx ''''), c)
         \<in> set (log_to_log_attributes jx (map (materialize now) block)))"
  proof (intro ballI impI, clarify)
    fix r k v
    assume r: "r \<in> set block" and kv: "(k, v) \<in> set (attributes r)"
      and k: "length k < 256" and v: "256 < length v"
    let ?rows = "map (materialize now) block"
    let ?g = "(team_id r, toStartOfInterval (timestamp r) 10, service_name r, (k, ''''))"
    have a: "(k, '''') \<in> set (attribute_pairs (attributes (materialize now r)))"
      using kv k v by (simp add: materialize_simps attribute_pairs_long_value)
    have m: "materialize now r \<in> set ?rows" using r by simp
    have g: "?g \<in> set (attribute_rows ?rows)"
      using attribute_rows_mem [OF m a] by (simp add: materialize_simps)
    have "(rollup_key_of jx (materialize now r) (k, ''''), count_list (attribute_rows ?rows) ?g)
            \<in> set (log_to_log_attributes jx ?rows)"
      using log_to_log_attributes_mem [OF m a, of jx] by (simp add: materialize_simps)
    moreover have "0 < count_list (attribute_rows ?rows) ?g" using g by (rule count_list_pos)
    ultimately show "\<exists>c > 0.
        ((team_id r, toStartOfInterval (timestamp r) 10, service_name r, k, jx ''''), c)
          \<in> set (log_to_log_attributes jx ?rows)"
      by (auto simp: rollup_key_of_def materialize_simps)
  qed
  show "\<forall>r \<in> set block. materialize now r \<in> set (logs22 (insert_logs22 jx now block db))
      \<and> attributes (materialize now r) = attributes r"
    by (simp add: insert_logs22_simps materialize_simps)
qed

theorem rollup_truncation_witness:
  "((7, 0, ''api'', ''k'', ''''), 1)
     \<in> set (log_attributes (run id [Insert 0 [(sample_insert 7)\<lparr>attributes :=
          [(replicate 256 (CHR ''a''), ''x''), (''k'', replicate 257 (CHR ''b''))]\<rparr>]]))
   \<and> length (attribute_key (7, 0, ''api'', ''k'', '''')) < 256
   \<and> (\<exists>c > 0. ((7, 0, ''api'', ''k'', ''''), c)
         \<in> set (log_to_log_attributes id (map (materialize 0) [(sample_insert 7)\<lparr>attributes :=
          [(replicate 256 (CHR ''a''), ''x''), (''k'', replicate 257 (CHR ''b''))]\<rparr>])))"
proof -
  let ?r = "(sample_insert 7)\<lparr>attributes :=
          [(replicate 256 (CHR ''a''), ''x''), (''k'', replicate 257 (CHR ''b''))]\<rparr>"
  have m: "((7, 0, ''api'', ''k'', ''''), 1) \<in> set (log_attributes (run id [Insert 0 [?r]]))"
    by (simp add: run_def empty_db_def insert_logs22_simps log_to_log_attributes_def
        group_count_def attribute_rows_def attribute_pairs_def materialize_simps sample_defs
        toStartOfInterval_def)
  have h: "?r \<in> set [?r]" "(''k'', replicate 257 (CHR ''b'')) \<in> set (attributes ?r)"
    "length ''k'' < 256" "256 < length (replicate 257 (CHR ''b''))"
    "team_id ?r = 7" "toStartOfInterval (timestamp ?r) 10 = 0" "service_name ?r = ''api''"
    by (simp_all add: sample_defs toStartOfInterval_def)
  from rollup_truncation [of id "[Insert 0 [?r]]" _ _ _ _ "[?r]" 0]
  have t: "(\<forall>(k, c) \<in> set (log_attributes (run id [Insert 0 [?r]])). length (attribute_key k) < 256)"
    and u: "\<forall>r \<in> set [?r]. \<forall>(k, v) \<in> set (attributes r). length k < 256 \<and> 256 < length v \<longrightarrow>
      (\<exists>c > 0. ((team_id r, toStartOfInterval (timestamp r) 10, service_name r, k, id ''''), c)
         \<in> set (log_to_log_attributes id (map (materialize 0) [?r])))"
    by blast+
  from u h(1-4) have "\<exists>c > 0. ((team_id ?r, toStartOfInterval (timestamp ?r) 10, service_name ?r, ''k'', id ''''), c)
         \<in> set (log_to_log_attributes id (map (materialize 0) [?r]))"
    by fastforce
  then have "\<exists>c > 0. ((7, 0, ''api'', ''k'', ''''), c)
         \<in> set (log_to_log_attributes id (map (materialize 0) [?r]))"
    unfolding h(5-7) by simp
  with t m show ?thesis by blast
qed

text \<open>
  C3 as stated fails at a value of exactly 256 bytes, which the guard
  \<open>length(v) > 256\<close> keeps: for the JSON string literal of 256 bytes below, under the
  key \<open>k\<close>, the row the view groups and casts carries the literal, not the empty string.
\<close>

theorem rollup_truncation_at_256_counterexample:
  "length (CHR 0x22 # replicate 254 (CHR ''a'') @ [CHR 0x22]) = 256 \<and>
   attribute_rows [materialize 0 ((sample_insert 7)\<lparr>attributes :=
       [(''k'', CHR 0x22 # replicate 254 (CHR ''a'') @ [CHR 0x22])]\<rparr>)]
     = [(7, 0, ''api'', (''k'', CHR 0x22 # replicate 254 (CHR ''a'') @ [CHR 0x22]))] \<and>
   CHR 0x22 # replicate 254 (CHR ''a'') @ [CHR 0x22] \<noteq> ''''"
  by (simp add: attribute_rows_def attribute_pairs_def materialize_simps sample_defs
      toStartOfInterval_def)

section \<open>The false-positive rates of the attribute indexes\<close>

text \<open>
  C7, as the schema has it. In \<open>logs22\<close> and in \<open>log_attributes\<close> alike the bloom
  filter over the attribute values is declared with the rate 0.001 and the one over the
  attribute keys with the rate 0.01: the filter over the values has the lower
  false-positive rate, the stricter of the two.
\<close>

theorem bloom_filter_values_stricter:
  "index_rate logs22_indexes ''idx_attributes_str_keys'' = Some (1 / 100) \<and>
   index_rate logs22_indexes ''idx_attributes_str_values'' = Some (1 / 1000) \<and>
   index_rate log_attributes_indexes ''idx_attribute_key'' = Some (1 / 100) \<and>
   index_rate log_attributes_indexes ''idx_attribute_value'' = Some (1 / 1000) \<and>
   the (index_rate logs22_indexes ''idx_attributes_str_values'')
     < the (index_rate logs22_indexes ''idx_attributes_str_keys'') \<and>
   the (index_rate log_attributes_indexes ''idx_attribute_value'')
     < the (index_rate log_attributes_indexes ''idx_attribute_key'')"
  by (simp add: index_rate_def logs22_indexes_def log_attributes_indexes_def)

text \<open>
  C7 as stated, that the filter over the values has the higher rate, fails in both
  tables.
\<close>

theorem bloom_filter_values_looser_counterexample:
  "\<not> the (index_rate logs22_indexes ''idx_attributes_str_keys'')
       < the (index_rate logs22_indexes ''idx_attributes_str_values'') \<and>
   \<not> the (index_rate log_attributes_indexes ''idx_attribute_key'')
       < the (index_rate log_attributes_indexes ''idx_attribute_value'')"
  by (simp add: index_rate_def logs22_indexes_def log_attributes_indexes_def)

section \<open>Facts about counters\<close>











lemma sum_for_member: "(k, c) \<in> set rows \<Longrightarrow> c \<le> sum_for k rows"
  by (induction rows) (auto simp: sum_for_def)






section \<open>Facts about the Kafka view\<close>

lemma header_lookup:
  "arrayElement (map snd hs) (indexOf (map fst hs) k) =
     (case map_of hs k of Some v \<Rightarrow> v | None \<Rightarrow> [])"
proof (induction hs)
  case Nil
  then show ?case by (simp add: arrayElement_def)
next
  case (Cons h hs)
  show ?case
  proof (cases "fst h = k")
    case True
    then show ?thesis by (cases h) (simp add: arrayElement_def)
  next
    case False
    show ?thesis
    proof (cases "indexOf (map fst hs) k")
      case 0
      with False Cons.IH show ?thesis
        by (cases h) (auto simp: arrayElement_def split: option.splits)
    next
      case (Suc n)
      with False Cons.IH show ?thesis
        by (cases h) (auto simp: arrayElement_def split: option.splits)
    qed
  qed
qed

lemma header_team_id_eq:
  "header_team_id hs = toInt32OrZero (case map_of hs ''team_id'' of Some v \<Rightarrow> v | None \<Rightarrow> [])"
  by (simp add: header_team_id_def header_lookup)

lemma read_int_text_empty: "read_int_text [] = None"
  by (simp add: read_int_text_def)

lemmas read_int_defs = read_int_text_def is_digit_def digits_value_def

lemma kafka_logs_avro_mv_simps:
  "team_id (kafka_logs_avro_mv m) = header_team_id (headers m)"
  "log_payload.truncate (kafka_logs_avro_mv m) = payload m"
  "service_name (kafka_logs_avro_mv m) = service_name (payload m)"
  "attributes_map_str (kafka_logs_avro_mv m) = attributes_map_str (payload m)"
  "attributes (kafka_logs_avro_mv m) = attributes (payload m)"
  "timestamp (kafka_logs_avro_mv m) = timestamp (payload m)"
  by (simp_all add: kafka_logs_avro_mv_def log_payload.defs log_insert.defs)

lemma assume_materialize:
  "assume_service_name_attr (materialize now i) = assume_service_name_attr i"
  by (simp add: assume_service_name_attr_def materialize_simps)

lemma assume_mv:
  "assume_service_name_attr (kafka_logs_avro_mv m) = assume_service_name_attr (payload m)"
  by (simp add: assume_service_name_attr_def kafka_logs_avro_mv_simps)

section \<open>The tenant of a Kafka message\<close>

text \<open>
  C5. Decoder tenant resolution. The row the Kafka view makes of a message has every
  payload column as the payload has it and its \<open>team_id\<close> from the headers alone: two
  messages with the same headers get the same \<open>team_id\<close> whatever their payloads. The
  coercion is \<open>toInt32OrZero\<close> of the value of the first header named \<open>team_id\<close>: it
  is zero when there is no such header, zero when the value is not a decimal integer,
  zero when the integer is outside \<open>Int32\<close>, and the integer otherwise. No header makes
  the view fail: a block of messages adds one row to \<open>logs22\<close> for each message.
\<close>

theorem decoder_team_id:
  "team_id (kafka_logs_avro_mv m) = header_team_id (headers m)
   \<and> log_payload.truncate (kafka_logs_avro_mv m) = payload m
   \<and> (headers m = headers m' \<longrightarrow>
        team_id (kafka_logs_avro_mv m) = team_id (kafka_logs_avro_mv m'))
   \<and> (''team_id'' \<notin> set (map fst (headers m)) \<longrightarrow> team_id (kafka_logs_avro_mv m) = 0)
   \<and> (\<forall>v. map_of (headers m) ''team_id'' = Some v \<and> read_int_text v = None \<longrightarrow>
          team_id (kafka_logs_avro_mv m) = 0)
   \<and> (\<forall>v n. map_of (headers m) ''team_id'' = Some v \<and> read_int_text v = Some n
              \<and> (n < - (2 ^ 31) \<or> 2 ^ 31 \<le> n) \<longrightarrow>
          team_id (kafka_logs_avro_mv m) = 0)
   \<and> (\<forall>v n. map_of (headers m) ''team_id'' = Some v \<and> read_int_text v = Some n
              \<and> - (2 ^ 31) \<le> n \<and> n < 2 ^ 31 \<longrightarrow>
          team_id (kafka_logs_avro_mv m) = n)
   \<and> length (logs22 (step jx db (Consume now msgs))) = length (logs22 db) + length msgs"
  by (auto simp: kafka_logs_avro_mv_simps header_team_id_eq read_int_text_empty
      toInt32OrZero_def insert_logs22_def Let_def map_of_eq_None_iff [THEN iffD2])

theorem decoder_team_id_witness:
  "team_id (kafka_logs_avro_mv
      \<lparr>payload = sample_payload, headers = [(''origin'', ''eu''), (''team_id'', ''42'')]\<rparr>) = 42
   \<and> team_id (kafka_logs_avro_mv
      \<lparr>payload = sample_payload, headers = [(''origin'', ''eu'')]\<rparr>) = 0
   \<and> team_id (kafka_logs_avro_mv
      \<lparr>payload = sample_payload, headers = [(''team_id'', ''4x2'')]\<rparr>) = 0
   \<and> team_id (kafka_logs_avro_mv
      \<lparr>payload = sample_payload, headers = [(''team_id'', ''2147483648'')]\<rparr>) = 0
   \<and> team_id (kafka_logs_avro_mv
      \<lparr>payload = sample_payload\<lparr>body := ''team_id 9''\<rparr>, headers = [(''team_id'', ''4x2'')]\<rparr>)
     = team_id (kafka_logs_avro_mv
      \<lparr>payload = sample_payload, headers = [(''team_id'', ''4x2'')]\<rparr>)"
proof -
  let ?m5 = "\<lparr>payload = sample_payload\<lparr>body := ''team_id 9''\<rparr>, headers = [(''team_id'', ''4x2'')]\<rparr>"
  let ?m1 = "\<lparr>payload = sample_payload, headers = [(''origin'', ''eu''), (''team_id'', ''42'')]\<rparr>"
  let ?m2 = "\<lparr>payload = sample_payload, headers = [(''origin'', ''eu'')]\<rparr>"
  let ?m3 = "\<lparr>payload = sample_payload, headers = [(''team_id'', ''4x2'')]\<rparr>"
  let ?m4 = "\<lparr>payload = sample_payload, headers = [(''team_id'', ''2147483648'')]\<rparr>"
  have h1: "map_of (headers ?m1) ''team_id'' = Some ''42'' \<and> read_int_text ''42'' = Some 42
            \<and> - (2 ^ 31) \<le> (42 :: int) \<and> (42 :: int) < 2 ^ 31"
    by (simp add: read_int_defs)
  have h2: "''team_id'' \<notin> set (map fst (headers ?m2))" by simp
  have h3: "map_of (headers ?m3) ''team_id'' = Some ''4x2'' \<and> read_int_text ''4x2'' = None"
    by (simp add: read_int_defs)
  have h4: "map_of (headers ?m4) ''team_id'' = Some ''2147483648''
            \<and> read_int_text ''2147483648'' = Some 2147483648
            \<and> ((2147483648 :: int) < - (2 ^ 31) \<or> 2 ^ 31 \<le> (2147483648 :: int))"
    by (simp add: read_int_defs)
  have "team_id (kafka_logs_avro_mv ?m1) = 42" using decoder_team_id [of ?m1] h1 by blast
  moreover have "team_id (kafka_logs_avro_mv ?m2) = 0" using decoder_team_id [of ?m2] h2 by blast
  moreover have "team_id (kafka_logs_avro_mv ?m3) = 0" using decoder_team_id [of ?m3] h3 by blast
  moreover have "team_id (kafka_logs_avro_mv ?m4) = 0" using decoder_team_id [of ?m4] h4 by blast
  moreover have "team_id (kafka_logs_avro_mv ?m5) = team_id (kafka_logs_avro_mv ?m3)"
  proof -
    have "headers ?m5 = headers ?m3" by simp
    with decoder_team_id [of ?m5 ?m3] show ?thesis by blast
  qed
  ultimately show ?thesis by blast
qed

section \<open>The assumed constraint\<close>

text \<open>
  C9, as the schema has it. The equality
  \<open>attributes_map_str['service.name__str'] = service_name\<close> is assumed and not
  enforced: the Kafka view copies \<open>service_name\<close> and \<open>attributes_map_str\<close> through
  unmodified and the materialized columns do not touch them, so a stored row satisfies the
  equality exactly when the payload (or the inserted row) it comes from does; and every
  message of a Kafka block and every row of an insert is stored, whether it does or not.
\<close>

theorem assume_service_name_attr_not_enforced:
  "assume_service_name_attr (materialize now (kafka_logs_avro_mv m))
     = assume_service_name_attr (payload m)
   \<and> service_name (materialize now (kafka_logs_avro_mv m)) = service_name (payload m)
   \<and> attributes_map_str (materialize now (kafka_logs_avro_mv m)) = attributes_map_str (payload m)
   \<and> assume_service_name_attr (materialize now i) = assume_service_name_attr i
   \<and> logs22 (step jx db (Consume now msgs))
       = logs22 db @ map (\<lambda>m. materialize now (kafka_logs_avro_mv m)) msgs
   \<and> logs22 (step jx db (Insert now block)) = logs22 db @ map (materialize now) block"
  by (simp add: assume_materialize assume_mv materialize_simps kafka_logs_avro_mv_simps
      insert_logs22_simps)

theorem assume_service_name_attr_not_enforced_witness:
  "assume_service_name_attr (materialize 0 (kafka_logs_avro_mv
      \<lparr>payload = sample_payload\<lparr>attributes_map_str := [(''service.name__str'', ''api'')]\<rparr>,
       headers = []\<rparr>))"
proof -
  have "assume_service_name_attr
          (sample_payload\<lparr>attributes_map_str := [(''service.name__str'', ''api'')]\<rparr>)"
    by (simp add: assume_service_name_attr_def map_subscript_def sample_payload_def)
  with assume_service_name_attr_not_enforced
         [of 0 "\<lparr>payload = sample_payload\<lparr>attributes_map_str := [(''service.name__str'', ''api'')]\<rparr>,
       headers = []\<rparr>", THEN conjunct1]
  show ?thesis by (simp only: kafka_message.simps)
qed

text \<open>
  C9 as stated, that the equality holds for every record inserted, fails: a message whose
  payload names the service \<open>api\<close> and has an empty \<open>attributes_map_str\<close> is stored by
  the Kafka view, and the stored row has the service name \<open>api\<close> and the empty string
  under \<open>service.name__str\<close>.
\<close>

theorem assume_service_name_attr_counterexample:
  "materialize 0 (kafka_logs_avro_mv \<lparr>payload = sample_payload, headers = [(''team_id'', ''7'')]\<rparr>)
     \<in> set (logs22 (run id [Consume 0
           [\<lparr>payload = sample_payload, headers = [(''team_id'', ''7'')]\<rparr>]]))
   \<and> service_name (materialize 0 (kafka_logs_avro_mv
         \<lparr>payload = sample_payload, headers = [(''team_id'', ''7'')]\<rparr>)) = ''api''
   \<and> map_subscript (attributes_map_str (materialize 0 (kafka_logs_avro_mv
         \<lparr>payload = sample_payload, headers = [(''team_id'', ''7'')]\<rparr>))) ''service.name__str'' = ''''
   \<and> \<not> assume_service_name_attr (materialize 0 (kafka_logs_avro_mv
         \<lparr>payload = sample_payload, headers = [(''team_id'', ''7'')]\<rparr>))"
  by (simp add: run_def empty_db_def insert_logs22_simps assume_service_name_attr_def
      materialize_simps kafka_logs_avro_mv_simps sample_payload_def map_subscript_def)

section \<open>The threshold of malformed messages\<close>

lemma consume_malformed_run:
  "streak \<le> threshold \<Longrightarrow>
   consume threshold streak (replicate n Malformed @ ms) =
     (if streak + n \<le> threshold then consume threshold (streak + n) ms
      else ([], StreamStallError))"
  by (induction n arbitrary: streak) auto

lemma consume_decoded_first:
  "consume threshold streak (Decoded m # ms)
     = (m # fst (consume threshold 0 ms), snd (consume threshold 0 ms))"
  by (simp add: split_def)

text \<open>
  C6. Malformed-message threshold. The threshold the schema configures is 100. A run of
  \<open>n\<close> consecutive malformed messages with \<open>n\<close> at most the threshold is skipped
  without a halt: at the end of the stream the consumer is still consuming, and a decoded
  message after the run is handed on and ends the run, the messages after it being
  consumed as from the start; so 100 malformed messages, a decoded one and 100 malformed
  messages more hand on the decoded one and do not halt. A run longer than the
  threshold, whatever follows it, halts ingestion with the stall error and hands on no
  message; so do 101 malformed messages.
\<close>

theorem malformed_message_threshold:
  "kafka_skip_broken_messages = 100
   \<and> (n \<le> kafka_skip_broken_messages \<longrightarrow>
        consume kafka_skip_broken_messages 0 (replicate n Malformed) = ([], Consuming)
        \<and> consume kafka_skip_broken_messages 0 (replicate n Malformed @ Decoded m # rest)
            = (m # fst (consume kafka_skip_broken_messages 0 rest),
               snd (consume kafka_skip_broken_messages 0 rest)))
   \<and> (kafka_skip_broken_messages < n \<longrightarrow>
        consume kafka_skip_broken_messages 0 (replicate n Malformed @ rest)
          = ([], StreamStallError))
   \<and> consume kafka_skip_broken_messages 0 (replicate 101 Malformed) = ([], StreamStallError)
   \<and> consume kafka_skip_broken_messages 0
         (replicate 100 Malformed @ Decoded m # replicate 100 Malformed)
       = ([m], Consuming)"
proof -
  let ?k = kafka_skip_broken_messages
  have k: "?k = 100" by (simp add: kafka_skip_broken_messages_def)
  have a: "consume ?k 0 (replicate i Malformed) = ([], Consuming)" if "i \<le> ?k" for i
    using consume_malformed_run [of 0 ?k i "[]"] that by simp
  have b: "consume ?k 0 (replicate i Malformed @ Decoded m # ms)
             = (m # fst (consume ?k 0 ms), snd (consume ?k 0 ms))" if "i \<le> ?k" for i ms
    using consume_malformed_run [of 0 ?k i "Decoded m # ms"] that
    by (simp add: split_def)
  have c: "consume ?k 0 (replicate i Malformed @ ms) = ([], StreamStallError)"
    if "?k < i" for i ms
    using consume_malformed_run [of 0 ?k i ms] that by simp
  have d: "consume ?k 0 (replicate 101 Malformed) = ([], StreamStallError)"
    using c [of 101 "[]"] k by simp
  have e: "consume ?k 0 (replicate 100 Malformed @ Decoded m # replicate 100 Malformed)
             = ([m], Consuming)"
    using b [of 100 "replicate 100 Malformed"] a [of 100] k by simp
  show ?thesis using k a [of n] b [of n rest] c [of n rest] d e by blast
qed

theorem malformed_message_threshold_witness:
  "consume kafka_skip_broken_messages 0
     (replicate 100 Malformed
        @ Decoded \<lparr>payload = sample_payload, headers = [(''team_id'', ''7'')]\<rparr>
        # replicate 100 Malformed)
     = ([\<lparr>payload = sample_payload, headers = [(''team_id'', ''7'')]\<rparr>], Consuming)
   \<and> consume kafka_skip_broken_messages 0
     (replicate 101 Malformed
        @ [Decoded \<lparr>payload = sample_payload, headers = [(''team_id'', ''7'')]\<rparr>])
     = ([], StreamStallError)
   \<and> consume kafka_skip_broken_messages 0
     (replicate 3 Malformed
        @ Decoded \<lparr>payload = sample_payload, headers = [(''team_id'', ''7'')]\<rparr>
        # replicate 101 Malformed)
     = ([\<lparr>payload = sample_payload, headers = [(''team_id'', ''7'')]\<rparr>], StreamStallError)"
proof -
  let ?m = "\<lparr>payload = sample_payload, headers = [(''team_id'', ''7'')]\<rparr>"
  let ?k = kafka_skip_broken_messages
  have a: "100 \<le> ?k" and b: "?k < 101" and c: "3 \<le> ?k"
    by (simp_all add: kafka_skip_broken_messages_def)
  have s: "consume ?k 0 (replicate 101 Malformed) = ([], StreamStallError)"
    using malformed_message_threshold [where n = 0] by blast
  have "consume ?k 0 (replicate 100 Malformed @ Decoded ?m # replicate 100 Malformed)
          = ([?m], Consuming)"
    using malformed_message_threshold [where n = 0 and m = ?m] by blast
  moreover from malformed_message_threshold [where n = 101 and rest = "[Decoded ?m]"] b
  have "consume ?k 0 (replicate 101 Malformed @ [Decoded ?m]) = ([], StreamStallError)"
    by blast
  moreover from malformed_message_threshold
      [where n = 3 and m = ?m and rest = "replicate 101 Malformed"] c
  have "consume ?k 0 (replicate 3 Malformed @ Decoded ?m # replicate 101 Malformed)
          = (?m # fst (consume ?k 0 (replicate 101 Malformed)),
             snd (consume ?k 0 (replicate 101 Malformed)))"
    by blast
  ultimately show ?thesis by (simp add: s)
qed

section \<open>The counters of the rollup\<close>




section \<open>Facts about merges\<close>


















section \<open>Facts about the rows of one tenant\<close>

lemma filter_replacing_merge:
  assumes "\<And>r r'. key r = key r' \<Longrightarrow> P r = P r'"
  shows "filter P (replacing_merge key rs) = replacing_merge key (filter P rs)"
proof (induction rs)
  case Nil
  then show ?case by simp
next
  case (Cons r rs)
  show ?case
  proof (cases "P r")
    case True
    have e: "key r \<in> key ` set (filter P rs) \<longleftrightarrow> key r \<in> key ` set rs"
    proof
      assume "key r \<in> key ` set (filter P rs)"
      then show "key r \<in> key ` set rs" by auto
    next
      assume "key r \<in> key ` set rs"
      then obtain r' where r': "r' \<in> set rs" "key r' = key r" by auto
      then have "P r'" using assms [of r' r] True by simp
      with r' have "r' \<in> set (filter P rs)" by simp
      with r'(2) show "key r \<in> key ` set (filter P rs)" by (metis imageI)
    qed
    show ?thesis
    proof (cases "key r \<in> key ` set rs")
      case k: True
      then have "replacing_merge key (r # rs) = replacing_merge key rs" by simp
      moreover have "replacing_merge key (r # filter P rs) = replacing_merge key (filter P rs)"
        using k e by simp
      ultimately show ?thesis using True Cons.IH by simp
    next
      case k: False
      then have "replacing_merge key (r # rs) = r # replacing_merge key rs" by simp
      moreover have "replacing_merge key (r # filter P rs) = r # replacing_merge key (filter P rs)"
        using k e by simp
      ultimately show ?thesis using True Cons.IH by simp
    qed
  next
    case False
    have "filter P (replacing_merge key (r # rs)) = filter P (replacing_merge key rs)"
      using False by simp
    with False Cons.IH show ?thesis by simp
  qed
qed

lemma count_list_filter_key: "P k \<Longrightarrow> count_list (filter P ks) k = count_list ks k"
  by (induction ks) auto

lemma filter_group_count:
  "filter (\<lambda>row. P (fst row)) (group_count ks) = group_count (filter P ks)"
proof -
  have "filter (\<lambda>row. P (fst row)) (group_count ks)
          = map (\<lambda>k. (k, count_list ks k)) (filter P (remdups ks))"
    by (simp add: group_count_def filter_map o_def)
  also have "\<dots> = map (\<lambda>k. (k, count_list (filter P ks) k)) (filter P (remdups ks))"
    by (rule map_cong) (simp_all add: count_list_filter_key)
  finally show ?thesis by (simp add: group_count_def remdups_filter)
qed

lemma sum_for_filter_key:
  "P k \<Longrightarrow> sum_for k (filter (\<lambda>row. P (fst row)) rows) = sum_for k rows"
proof -
  assume "P k"
  then have "filter (\<lambda>row. fst row = k) (filter (\<lambda>row. P (fst row)) rows)
               = filter (\<lambda>row. fst row = k) rows"
    by (auto intro: filter_cong)
  then show ?thesis by (simp add: sum_for_def)
qed

lemma filter_merge_sum:
  "filter (\<lambda>row. P (fst row)) (merge_sum rows) = merge_sum (filter (\<lambda>row. P (fst row)) rows)"
proof -
  let ?f = "filter (\<lambda>row. P (fst row)) rows"
  have "filter (\<lambda>row. P (fst row)) (merge_sum rows)
          = map (\<lambda>k. (k, sum_for k rows)) (filter P (remdups (map fst rows)))"
    by (simp add: merge_sum_def filter_map o_def)
  also have "\<dots> = map (\<lambda>k. (k, sum_for k ?f)) (filter P (remdups (map fst rows)))"
    by (rule map_cong) (simp_all add: sum_for_filter_key)
  finally have a: "filter (\<lambda>row. P (fst row)) (merge_sum rows)
          = map (\<lambda>k. (k, sum_for k ?f)) (filter P (remdups (map fst rows)))" .
  have "map fst ?f = filter P (map fst rows)" by (simp add: filter_map o_def)
  then have "remdups (map fst ?f) = filter P (remdups (map fst rows))"
    by (simp only: remdups_filter)
  with a show ?thesis by (simp add: merge_sum_def)
qed

lemma attribute_rows_filter:
  "filter (\<lambda>g. fst g = team) (attribute_rows rows)
     = attribute_rows (filter (\<lambda>r. team_id r = team) rows)"
  by (induction rows) (auto simp: attribute_rows_def filter_map o_def)

lemma log_to_log_attributes_filter:
  "filter (\<lambda>row. rollup_team_id (fst row) = team) (log_to_log_attributes jx rows)
     = log_to_log_attributes jx (filter (\<lambda>r. team_id r = team) rows)"
proof -
  have "filter (\<lambda>row. rollup_team_id (fst row) = team) (log_to_log_attributes jx rows)
          = map (\<lambda>((t, b, s, a), c). ((t, b, s, fst a, jx (snd a)), c))
              (filter (\<lambda>row. fst (fst row) = team) (group_count (attribute_rows rows)))"
    unfolding log_to_log_attributes_def filter_map
    by (rule arg_cong [where f = "map _"], rule filter_cong)
      (auto simp: rollup_team_id_def)
  then show ?thesis
    by (simp add: filter_group_count [of "\<lambda>g. fst g = team"] attribute_rows_filter
        log_to_log_attributes_def)
qed

lemma projection_filter:
  "filter (\<lambda>row. fst (fst row) = team) (projection_aggregate_counts_of rows)
     = projection_aggregate_counts_of (filter (\<lambda>r. team_id r = team) rows)"
proof -
  have "filter (\<lambda>k. fst k = team) (map aggregate_key rows)
          = map aggregate_key (filter (\<lambda>r. team_id r = team) rows)"
    by (simp add: filter_map o_def aggregate_key_def)
  then show ?thesis
    by (simp add: projection_aggregate_counts_of_def filter_group_count [of "\<lambda>k. fst k = team"])
qed

lemma materialize_filter:
  "filter (\<lambda>r. team_id r = team) (map (materialize now) block)
     = map (materialize now) (filter (\<lambda>r. team_id r = team) block)"
  by (simp add: filter_map o_def materialize_simps)

lemma tenant_view_insert:
  "tenant_view team (insert_logs22 jx now block db)
     = insert_logs22 jx now (filter (\<lambda>r. team_id r = team) block) (tenant_view team db)"
  by (simp add: tenant_view_def insert_logs22_def Let_def projection_filter
      log_to_log_attributes_filter materialize_filter)

lemma tenant_view_step:
  "tenant_view team (step jx db op) = step jx (tenant_view team db) (only_team team op)"
proof (cases op)
  case (Insert now block)
  then show ?thesis by (simp add: tenant_view_insert)
next
  case (Consume now msgs)
  have "filter (\<lambda>r. team_id r = team) (map kafka_logs_avro_mv msgs)
          = map kafka_logs_avro_mv (filter (\<lambda>m. header_team_id (headers m) = team) msgs)"
    by (simp add: filter_map o_def kafka_logs_avro_mv_simps)
  with Consume show ?thesis by (simp add: tenant_view_insert)
next
  case Merge_logs22
  have "filter (\<lambda>r. team_id r = team) (replacing_merge sorting_key (logs22 db))
          = replacing_merge sorting_key (filter (\<lambda>r. team_id r = team) (logs22 db))"
    by (rule filter_replacing_merge) (simp add: sorting_key_def)
  with Merge_logs22 show ?thesis
    by (simp add: tenant_view_def merge_logs22_def filter_merge_sum [of "\<lambda>k. fst k = team"])
next
  case Merge_log_attributes
  then show ?thesis
    by (simp add: tenant_view_def merge_log_attributes_def
        filter_merge_sum [of "\<lambda>k. rollup_team_id k = team"])
qed

lemma tenant_view_run:
  "tenant_view team (run jx ops) = run jx (map (only_team team) ops)"
proof (induction ops rule: rev_induct)
  case Nil
  then show ?case by (simp add: run_def tenant_view_def empty_db_def)
next
  case (snoc op ops)
  then show ?case by (simp add: run_snoc tenant_view_step)
qed

lemma insort_key_map:
  "insort_key f (h x) (map h ys) = map h (insort_key (\<lambda>y. f (h y)) x ys)"
  by (induction ys) auto

lemma sort_key_map: "sort_key f (map h xs) = map h (sort_key (\<lambda>y. f (h y)) xs)"
  by (induction xs) (simp_all add: insort_key_map)

lemma trace_span_rows:
  "map (\<lambda>(ts, off). rows ! off) (projection_trace_span rows t)
     = sort_key timestamp (filter (\<lambda>r. trace_id r = t) rows)"
proof -
  let ?xs = "filter (\<lambda>(off, r). trace_id r = t) (enumerate 0 rows)"
  let ?zs = "sort_key (\<lambda>y. timestamp (snd y)) ?xs"
  have p: "projection_trace_span rows t = map (\<lambda>(off, r). (timestamp r, off)) ?zs"
    unfolding projection_trace_span_def sort_key_map by (simp add: split_def)
  have "map ((\<lambda>(ts, off). rows ! off) \<circ> (\<lambda>(off, r). (timestamp r, off))) ?zs = map snd ?zs"
  proof (rule map_cong [OF refl])
    fix y assume "y \<in> set ?zs"
    then have "y \<in> set (enumerate 0 rows)" by simp
    then have "rows ! fst y = snd y" by (simp add: in_set_enumerate_eq)
    then show "((\<lambda>(ts, off). rows ! off) \<circ> (\<lambda>(off, r). (timestamp r, off))) y = snd y"
      by (simp add: split_def)
  qed
  then have "map (\<lambda>(ts, off). rows ! off) (map (\<lambda>(off, r). (timestamp r, off)) ?zs) = map snd ?zs"
    by (simp only: map_map)
  also have "\<dots> = sort_key timestamp (map snd ?xs)" by (simp add: sort_key_map)
  finally have m: "map (\<lambda>(ts, off). rows ! off) (projection_trace_span rows t)
                     = sort_key timestamp (map snd ?xs)"
    by (simp only: p)
  have "filter (\<lambda>r. trace_id r = t) (map snd (enumerate 0 rows)) = map snd ?xs"
    by (simp only: filter_map o_def split_def)
  then have "map snd ?xs = filter (\<lambda>r. trace_id r = t) rows" by simp
  with m show ?thesis by simp
qed

lemma getByTrace_rows:
  "getByTrace db team t
     = sort_key timestamp
         (filter (\<lambda>r. team_id r = team \<and> trace_id r = t) (projection_trace_span_parts db))"
  by (simp add: getByTrace_def trace_span_rows filter_sort conj_commute)

lemma getByTrace_view: "getByTrace (tenant_view team db) team t = getByTrace db team t"
proof -
  have "filter (\<lambda>r. team_id r = team \<and> trace_id r = t)
          (filter (\<lambda>r. team_id r = team) (projection_trace_span_parts db))
          = filter (\<lambda>r. team_id r = team \<and> trace_id r = t) (projection_trace_span_parts db)"
    by (auto intro: filter_cong)
  then show ?thesis by (simp add: getByTrace_rows tenant_view_def)
qed

lemma searchByText_view:
  "searchByText (tenant_view team db) team lo hi sub = searchByText db team lo hi sub"
proof -
  let ?Q = "\<lambda>r. team_id r = team \<and> lo \<le> timestamp r \<and> timestamp r < hi \<and> contains (body r) sub"
  have "filter ?Q (filter (\<lambda>r. team_id r = team) (logs22 db)) = filter ?Q (logs22 db)"
    by (auto intro: filter_cong)
  then show ?thesis by (simp add: searchByText_def tenant_view_def)
qed

lemma listAttributes_view:
  "listAttributes (tenant_view team db) team lo hi service = listAttributes db team lo hi service"
proof -
  let ?Q = "\<lambda>(k, c). rollup_team_id k = team
                     \<and> lo \<le> rollup_time_bucket k \<and> rollup_time_bucket k < hi
                     \<and> (case service of None \<Rightarrow> True | Some s \<Rightarrow> rollup_service_name k = s)"
  have "filter ?Q (filter (\<lambda>row. rollup_team_id (fst row) = team) (log_attributes db))
          = filter ?Q (log_attributes db)"
    by (auto intro: filter_cong)
  then show ?thesis by (simp add: listAttributes_def tenant_view_def)
qed

lemma aggregateCounts_view:
  "aggregateCounts (tenant_view team db) team lo hi group_by
     = aggregateCounts db team lo hi group_by"
proof -
  let ?Q = "\<lambda>(k, c). fst k = team \<and> lo \<le> fst (snd k) \<and> fst (snd k) < hi"
  have "filter ?Q (filter (\<lambda>row. fst (fst row) = team) (projection_aggregate_counts db))
          = filter ?Q (projection_aggregate_counts db)"
    by (auto intro: filter_cong)
  then show ?thesis by (simp add: aggregateCounts_def counts_by_def tenant_view_def)
qed

section \<open>Duplicate deliveries\<close>







section \<open>Tenants\<close>

text \<open>
  C2, as the schema has it. Tenant isolation. Every record that \<open>getByTrace\<close> or
  \<open>searchByText\<close> returns for tenant \<open>a\<close> has \<open>team_id\<close> \<open>a\<close>, and what each of
  the four queries returns for \<open>a\<close> after any history of inserts, Kafka blocks and
  merges is what it returns after the same history with the records of every other
  tenant left out. The sorting key of \<open>logs22\<close>, the grouping of the aggregate
  projection, the sorting key of \<open>log_attributes\<close> and the grouping of the rollup view
  lead with \<open>team_id\<close>.
\<close>

theorem tenant_isolation:
  "(\<forall>r \<in> set (getByTrace db a t). team_id r = a)
   \<and> (\<forall>r \<in> set (searchByText db a lo hi sub). team_id r = a)
   \<and> getByTrace (run jx ops) a t = getByTrace (run jx (map (only_team a) ops)) a t
   \<and> searchByText (run jx ops) a lo hi sub
       = searchByText (run jx (map (only_team a) ops)) a lo hi sub
   \<and> listAttributes (run jx ops) a lo hi service
       = listAttributes (run jx (map (only_team a) ops)) a lo hi service
   \<and> aggregateCounts (run jx ops) a lo hi group_by
       = aggregateCounts (run jx (map (only_team a) ops)) a lo hi group_by
   \<and> hd logs22_order_by = ''team_id''
   \<and> hd projection_aggregate_counts_group_by = ''team_id''
   \<and> hd log_attributes_order_by = ''team_id''
   \<and> hd log_to_log_attributes_group_by = ''team_id''"
proof -
  have "getByTrace (run jx ops) a t = getByTrace (tenant_view a (run jx ops)) a t"
    by (simp add: getByTrace_view)
  moreover have "searchByText (run jx ops) a lo hi sub
                   = searchByText (tenant_view a (run jx ops)) a lo hi sub"
    by (simp add: searchByText_view)
  moreover have "listAttributes (run jx ops) a lo hi service
                   = listAttributes (tenant_view a (run jx ops)) a lo hi service"
    by (simp add: listAttributes_view)
  moreover have "aggregateCounts (run jx ops) a lo hi group_by
                   = aggregateCounts (tenant_view a (run jx ops)) a lo hi group_by"
    by (simp add: aggregateCounts_view)
  moreover have "\<forall>r \<in> set (getByTrace db a t). team_id r = a"
    by (simp add: getByTrace_def)
  moreover have "\<forall>r \<in> set (searchByText db a lo hi sub). team_id r = a"
    by (simp add: searchByText_def)
  ultimately show ?thesis
    by (simp add: tenant_view_run logs22_order_by_def projection_aggregate_counts_group_by_def
        log_attributes_order_by_def log_to_log_attributes_group_by_def)
qed

theorem tenant_isolation_witness:
  "getByTrace (run id [Insert 0 [sample_insert 1, sample_insert 2]]) 1 ''T1''
     = [materialize 0 (sample_insert 1)]
   \<and> team_id (materialize 0 (sample_insert 1)) = 1
   \<and> listAttributes (run id [Insert 0 [sample_insert 1]]) 2 0 600 None = []"
proof -
  have c: "team_id (materialize 0 (sample_insert 1)) = 1"
    if "getByTrace (run id [Insert 0 [sample_insert 1, sample_insert 2]]) 1 ''T1''
          = [materialize 0 (sample_insert 1)]"
  proof -
    from that have "materialize 0 (sample_insert 1)
        \<in> set (getByTrace (run id [Insert 0 [sample_insert 1, sample_insert 2]]) 1 ''T1'')"
      by simp
    with tenant_isolation
           [where db = "run id [Insert 0 [sample_insert 1, sample_insert 2]]" and a = 1
              and t = "''T1''"]
    show ?thesis by blast
  qed
  have a: "getByTrace (run id (map (only_team 1) [Insert 0 [sample_insert 1, sample_insert 2]])) 1 ''T1''
             = [materialize 0 (sample_insert 1)]"
    unfolding getByTrace_rows
    by (simp add: run_def empty_db_def insert_logs22_simps materialize_simps sample_defs)
  have b: "listAttributes (run id (map (only_team 2) [Insert 0 [sample_insert 1]])) 2 0 600 None = []"
    by (simp add: run_def empty_db_def insert_logs22_simps listAttributes_def sample_defs
        log_to_log_attributes_def attribute_rows_def group_count_def merge_sum_def)
  from tenant_isolation [of _ 1 "''T1''" _ _ _ id "[Insert 0 [sample_insert 1, sample_insert 2]]"]
  have "getByTrace (run id [Insert 0 [sample_insert 1, sample_insert 2]]) 1 ''T1''
          = getByTrace (run id (map (only_team 1) [Insert 0 [sample_insert 1, sample_insert 2]])) 1 ''T1''"
    by blast
  moreover from tenant_isolation [of _ 2 _ 0 600 _ id "[Insert 0 [sample_insert 1]]" None]
  have "listAttributes (run id [Insert 0 [sample_insert 1]]) 2 0 600 None
          = listAttributes (run id (map (only_team 2) [Insert 0 [sample_insert 1]])) 2 0 600 None"
    by blast
  ultimately have "getByTrace (run id [Insert 0 [sample_insert 1, sample_insert 2]]) 1 ''T1''
          = [materialize 0 (sample_insert 1)]
        \<and> listAttributes (run id [Insert 0 [sample_insert 1]]) 2 0 600 None = []"
    by (simp only: a b)
  with c show ?thesis by blast
qed

text \<open>
  C2 as stated, that every storage, indexing and rollup key is scoped by \<open>team_id\<close>,
  fails: the key of the trace projection is \<open>(trace_id, timestamp)\<close> and the partition
  keys are days, none with \<open>team_id\<close>; for a trace id that two tenants share, the
  entries of the trace projection locate the rows of both.
\<close>

theorem tenant_isolation_counterexample:
  "''team_id'' \<notin> set projection_trace_span_order_by
   \<and> ''team_id'' \<notin> set logs22_partition_by
   \<and> ''team_id'' \<notin> set log_attributes_partition_by
   \<and> team_id (materialize 0 (sample_insert 1)) = 1
   \<and> team_id (materialize 0 (sample_insert 2)) = 2
   \<and> projection_trace_span [materialize 0 (sample_insert 1), materialize 0 (sample_insert 2)] ''T1''
       = [(90000000, 0), (90000000, 1)]"
  by (simp add: projection_trace_span_order_by_def logs22_partition_by_def
      log_attributes_partition_by_def projection_trace_span_def enumerate_eq_zip
      materialize_simps sample_defs)

end
